theory Spec2Isabelle
  imports Complex_Main "HOL-Library.AList" "HOL-Library.Multiset" "HOL-Library.Product_Lexorder"
begin

section \<open>The chunk-streaming scheduler of plarx/scheduler.py\<close>

text \<open>
  A shallow embedding of the classes \<^verbatim>\<open>Task\<close>, \<^verbatim>\<open>TaskGenerator\<close>, \<^verbatim>\<open>StoredData\<close> and
  \<^verbatim>\<open>Scheduler\<close>. Objects are records, Python dictionaries are association lists in
  insertion order (\<open>AList.update\<close> is \<^verbatim>\<open>d[k] = v\<close>), every \<^verbatim>\<open>raise\<close> and every
  failure of the interpreter (a missing attribute, an unhashable key, a key that is not
  there) is a value \<open>Inl e\<close>. A generator object is identified by its position in the
  scheduler's list, which holds each generator once.
\<close>

subsection \<open>Data\<close>

type_synonym ndarray = "int list"

datatype error =
    RuntimeError
  | NotImplementedError
  | AttributeError
  | TypeError
  | KeyError
  | IndexError
  | AssertionError
  | CancelledError
  | RecursionError
  | TaskFailure string

text \<open>
  A method that class \<^verbatim>\<open>TaskGenerator\<close> calls but does not define
  (\<^verbatim>\<open>deliver_inputs\<close>): undefined as in the class itself, or supplied by a subclass,
  where it returns or raises.
\<close>

datatype hook = Undefined | Returns | Raises error

text \<open>
  What \<^verbatim>\<open>StoredData.stored\<close> holds under a chunk number. The annotation promises an
  array; line 244 stores the whole result dictionary of the task.
\<close>

datatype stored_value = NdArray ndarray | ResultDict "(string \<times> ndarray) list"

record TaskGenerator =
  dtypes :: "string list"
  wants_input :: "(string \<times> int) list"
  is_source :: bool
  submit_to :: string
  parallel :: bool
  input_delivery :: string
  priority :: int
  depth :: int
  chunk_i :: int
  need_result_chunk :: int
  has_final_task :: bool
  has_finished :: bool
  is_finished :: bool
  finished :: "bool option"
  deliver_inputs :: hook
  finish :: "error option"
  external_input_ready :: "nat \<Rightarrow> bool"
  external_inputs_exhausted :: bool

text \<open>
  \<open>wants_input\<close> is a list of two-element lists \<^verbatim>\<open>[dtype, chunk_i]\<close>.
  \<open>is_finished\<close> is the attribute line 235 creates (False: not yet set); \<open>finished\<close> is
  the attribute line 341 reads, which the class never defines (\<open>None\<close>: reading it raises
  AttributeError). \<open>finish\<close> is what \<^verbatim>\<open>finish()\<close> raises (\<open>None\<close> for the \<^verbatim>\<open>pass\<close> of the
  class). \<open>external_input_ready tg n\<close> is the answer of \<^verbatim>\<open>external_input_ready()\<close> after
  \<open>n\<close> sleeps of the scheduler, \<open>external_inputs_exhausted\<close> the answer of the method of
  that name.
\<close>

record StoredData =
  dtype :: string
  stored :: "(int \<times> stored_value) list"
  seen_by_consumers :: "(nat \<times> int) list"
  last_contiguous :: int
  source_exhausted :: bool

text \<open>
  A \<^verbatim>\<open>concurrent.futures.Future\<close>: still running, or done with the outcome that
  \<^verbatim>\<open>exception()\<close> and \<^verbatim>\<open>result()\<close> report.
\<close>

datatype outcome = Cancelled | Raised error | Returned "(string \<times> ndarray) list"

datatype future = Running | Done outcome

text \<open>The closure \<^verbatim>\<open>partial(self.task_function, chunk_i=..., **inputs)\<close>.\<close>

datatype task_content = Partial int "(string \<times> StoredData) list"

record Task =
  content :: task_content
  is_final :: bool
  generator :: nat
  task_dtypes :: "string list"
  task_submit_to :: string
  future :: "future option"
  task_chunk_i :: int

text \<open>
  The list objects of the heap, by address: the constructor of the scheduler keeps the
  reference it is given.
\<close>

type_synonym ref = nat
type_synonym heap = "ref \<Rightarrow> TaskGenerator list"

record Scheduler =
  max_workers :: nat
  task_generators :: ref
  pending_tasks :: "Task list"
  stored_data :: "(string \<times> StoredData) list"
  threshold_mb :: rat

subsection \<open>TaskGenerator.__init__ (lines 74-77)\<close>

fun TaskGenerator_init :: "TaskGenerator \<Rightarrow> error + TaskGenerator" where
  "TaskGenerator_init self =
     (if input_delivery self \<noteq> ''direct'' \<and> \<not> parallel self then Inl RuntimeError
      else Inr self)"

subsection \<open>StoredData.__init__ (lines 153-157)\<close>

text \<open>The dictionary comprehension \<^verbatim>\<open>{tg: -1 for tg in wanted_by}\<close>.\<close>

fun seen_by_init :: "nat list \<Rightarrow> (nat \<times> int) list \<Rightarrow> (nat \<times> int) list" where
  "seen_by_init [] m = m"
| "seen_by_init (tg # tgs) m = seen_by_init tgs (AList.update tg (- 1) m)"

fun StoredData_init :: "string \<Rightarrow> nat list \<Rightarrow> StoredData" where
  "StoredData_init dt wanted_by =
     \<lparr>dtype = dt, stored = [], seen_by_consumers = seen_by_init wanted_by [],
      last_contiguous = - 1, source_exhausted = False\<rparr>"

subsection \<open>Scheduler.__init__ (lines 169-184)\<close>

text \<open>The sort key \<^verbatim>\<open>lambda _tg: (_tg.priority, _tg.depth)\<close>, compared as tuples.\<close>

fun sort_key_of :: "TaskGenerator \<Rightarrow> int \<times> int" where
  "sort_key_of tg = (priority tg, depth tg)"

text \<open>\<^verbatim>\<open>who_wants[dt].append(tg)\<close> on a \<^verbatim>\<open>defaultdict(list)\<close>.\<close>

fun who_wants_append :: "string \<Rightarrow> nat \<Rightarrow> (string \<times> nat list) list \<Rightarrow> (string \<times> nat list) list" where
  "who_wants_append dt tg ww =
     AList.update dt ((case map_of ww dt of None \<Rightarrow> [] | Some tgs \<Rightarrow> tgs) @ [tg]) ww"

fun who_wants_dtypes :: "nat \<Rightarrow> string list \<Rightarrow> (string \<times> nat list) list \<Rightarrow> (string \<times> nat list) list" where
  "who_wants_dtypes tg [] ww = ww"
| "who_wants_dtypes tg (dt # dts) ww = who_wants_dtypes tg dts (who_wants_append dt tg ww)"

fun who_wants_loop :: "nat \<Rightarrow> TaskGenerator list \<Rightarrow> (string \<times> nat list) list \<Rightarrow> (string \<times> nat list) list" where
  "who_wants_loop i [] ww = ww"
| "who_wants_loop i (tg # tgs) ww = who_wants_loop (Suc i) tgs (who_wants_dtypes i (dtypes tg) ww)"

fun stored_data_init :: "(string \<times> nat list) list \<Rightarrow> (string \<times> StoredData) list" where
  "stored_data_init [] = []"
| "stored_data_init ((dt, tgs) # ww) = (dt, StoredData_init dt tgs) # stored_data_init ww"

text \<open>
  Line 171 stores the caller's reference, line 172 sorts the object it points to, and the
  loop of line 179 walks that same object.
\<close>

fun Scheduler_init :: "heap \<Rightarrow> ref \<Rightarrow> nat \<Rightarrow> heap \<times> Scheduler" where
  "Scheduler_init h task_generators_arg max_workers_arg =
     (let h' = h(task_generators_arg := sort_key sort_key_of (h task_generators_arg))
      in (h', \<lparr>max_workers = max_workers_arg,
               task_generators = task_generators_arg,
               pending_tasks = [],
               stored_data = stored_data_init (who_wants_loop 0 (h' task_generators_arg) []),
               threshold_mb = 1000\<rparr>))"

subsection \<open>Scheduler._cleanup_cache (lines 327-336)\<close>

fun cleanup_data :: "StoredData \<Rightarrow> StoredData" where
  "cleanup_data d =
     (let seen_by_all = Min (set (map snd (seen_by_consumers d)))
      in d\<lparr>stored := filter (\<lambda>(chunk, data). chunk > seen_by_all) (stored d)\<rparr>)"

fun cleanup_cache :: "(string \<times> StoredData) list \<Rightarrow> error + (string \<times> StoredData) list" where
  "cleanup_cache [] = Inr []"
| "cleanup_cache ((k, d) # rest) =
     (if length (seen_by_consumers d) = 0 then Inl RuntimeError
      else (case cleanup_cache rest of
              Inl e \<Rightarrow> Inl e
            | Inr rest' \<Rightarrow> Inr ((k, cleanup_data d) # rest')))"

subsection \<open>Task.__init__ (lines 36-44)\<close>

fun Task_init :: "task_content \<Rightarrow> TaskGenerator \<Rightarrow> nat \<Rightarrow> int \<Rightarrow> bool \<Rightarrow> Task" where
  "Task_init c gen gen_ref ci fin =
     \<lparr>content = c, is_final = fin, generator = gen_ref, task_dtypes = dtypes gen,
      task_submit_to = submit_to gen, future = None, task_chunk_i = ci\<rparr>"

subsection \<open>TaskGenerator.task (lines 87-112)\<close>

text \<open>
  \<^verbatim>\<open>self.deliver_inputs(**inputs)\<close>: the attribute is looked up first, then \<^verbatim>\<open>**inputs\<close>
  is unpacked (a TypeError when \<^verbatim>\<open>inputs\<close> is \<^verbatim>\<open>None\<close>), then the method runs.
\<close>

fun call_deliver_inputs :: "TaskGenerator \<Rightarrow> (string \<times> StoredData) list option \<Rightarrow> error option" where
  "call_deliver_inputs self inputs =
     (case deliver_inputs self of
        Undefined \<Rightarrow> Some AttributeError
      | Returns \<Rightarrow> (case inputs of None \<Rightarrow> Some TypeError | Some kw \<Rightarrow> None)
      | Raises e \<Rightarrow> (case inputs of None \<Rightarrow> Some TypeError | Some kw \<Rightarrow> Some e))"

text \<open>
  \<^verbatim>\<open>k in self.wants_input\<close> for a key \<^verbatim>\<open>k\<close> of \<^verbatim>\<open>inputs\<close>: a string is compared with the
  two-element lists of \<^verbatim>\<open>wants_input\<close>, and a string never equals a list.
\<close>

fun key_in_wants :: "string \<Rightarrow> (string \<times> int) list \<Rightarrow> bool" where
  "key_in_wants k [] = False"
| "key_in_wants k (w # ws) = key_in_wants k ws"

text \<open>
  \<^verbatim>\<open>[k in inputs for k in self.wants_input]\<close>: each \<^verbatim>\<open>k\<close> is a list, which a dictionary
  cannot hash, so the first membership test raises TypeError.
\<close>

fun wants_in_inputs :: "(string \<times> int) list \<Rightarrow> (string \<times> StoredData) list \<Rightarrow> error + bool list" where
  "wants_in_inputs [] kw = Inr []"
| "wants_in_inputs (k # ks) kw = Inl TypeError"

fun task :: "TaskGenerator \<Rightarrow> nat \<Rightarrow> (string \<times> StoredData) list option \<Rightarrow> error + (TaskGenerator \<times> Task)" where
  "task self0 self_ref inputs =
     (let self1 = self0\<lparr>chunk_i := chunk_i self0 + 1\<rparr> in
      if \<not> (chunk_i self1 > need_result_chunk self1) then Inl AssertionError
      else if has_finished self1 then Inl AssertionError
      else
        (case (if \<not> parallel self1
               then (case call_deliver_inputs self1 inputs of
                       Some e \<Rightarrow> Inl e
                     | None \<Rightarrow> Inr (self1\<lparr>need_result_chunk := chunk_i self1\<rparr>))
               else Inr self1) of
           Inl e \<Rightarrow> Inl e
         | Inr self2 \<Rightarrow>
             if is_source self2 then
               (case inputs of
                  Some kw \<Rightarrow> Inl AssertionError
                | None \<Rightarrow>
                    Inr (self2, Task_init (Partial (chunk_i self2) []) self2 self_ref (chunk_i self2) False))
             else
               (case inputs of
                  None \<Rightarrow> Inl TypeError
                | Some kw \<Rightarrow>
                    if \<not> list_all (\<lambda>k. key_in_wants k (wants_input self2)) (map fst kw)
                    then Inl AssertionError
                    else (case wants_in_inputs (wants_input self2) kw of
                            Inl e \<Rightarrow> Inl e
                          | Inr present \<Rightarrow>
                              if \<not> list_all (\<lambda>b. b) present then Inl AssertionError
                              else if input_delivery self2 = ''direct'' then
                                Inr (self2\<lparr>wants_input := map (\<lambda>(dt, i). (dt, i + 1)) (wants_input self2)\<rparr>,
                                     Task_init (Partial (chunk_i self2) kw) self2 self_ref (chunk_i self2) False)
                              else
                                Inr (self2,
                                     Task_init (Partial (chunk_i self2) []) self2 self_ref (chunk_i self2) False)))))"

subsection \<open>TaskGenerator.final_task (lines 130-131)\<close>

fun final_task :: "TaskGenerator \<Rightarrow> nat \<Rightarrow> error + Task" where
  "final_task self self_ref = Inl NotImplementedError"

subsection \<open>Scheduler.exit_with_exception (lines 338-352)\<close>

text \<open>What the shutdown does to the outside world, in the order it does it.\<close>

datatype event =
    Print
  | FinishOnException nat
  | CancelFuture nat
  | ThreadpoolShutdown
  | ProcesspoolShutdown

text \<open>
  The loop of lines 340-348. Its body ends with \<^verbatim>\<open>raise exception\<close>, so the first
  generator is the only one it visits. \<^verbatim>\<open>finish_on_exception\<close> calls \<^verbatim>\<open>finish()\<close>; what
  that raises is caught and printed (two lines).
\<close>

fun exit_generators :: "nat \<Rightarrow> TaskGenerator list \<Rightarrow> error \<Rightarrow> event list \<times> error option" where
  "exit_generators i [] exception = ([], None)"
| "exit_generators i (tg # tgs) exception =
     (case finished tg of
        None \<Rightarrow> ([], Some AttributeError)
      | Some fin \<Rightarrow>
          ((if \<not> fin
            then FinishOnException i # (case finish tg of None \<Rightarrow> [] | Some e \<Rightarrow> [Print, Print])
            else []),
           Some exception))"

fun cancel_pending :: "nat \<Rightarrow> Task list \<Rightarrow> event list \<times> error option" where
  "cancel_pending i [] = ([], None)"
| "cancel_pending i (t # ts) =
     (case future t of
        None \<Rightarrow> ([], Some AttributeError)
      | Some f \<Rightarrow> (case cancel_pending (Suc i) ts of (evs, r) \<Rightarrow> (CancelFuture i # evs, r)))"

fun exit_with_exception :: "TaskGenerator list \<Rightarrow> Task list \<Rightarrow> error \<Rightarrow> event list \<times> error option" where
  "exit_with_exception gens pending exception =
     (case exit_generators 0 gens exception of
        (evs, Some e) \<Rightarrow> (Print # evs, Some e)
      | (evs, None) \<Rightarrow>
          (case cancel_pending 0 pending of
             (cevs, Some e) \<Rightarrow> (Print # evs @ cevs, Some e)
           | (cevs, None) \<Rightarrow>
               (Print # evs @ cevs @ [ThreadpoolShutdown, ProcesspoolShutdown], None)))"

subsection \<open>Scheduler._receive_from_done_tasks (lines 225-247)\<close>

text \<open>\<^verbatim>\<open>f.exception()\<close> and \<^verbatim>\<open>f.result()\<close> of a future that is done.\<close>

fun exception_of :: "outcome \<Rightarrow> error + error option" where
  "exception_of Cancelled = Inl CancelledError"
| "exception_of (Raised e) = Inr (Some e)"
| "exception_of (Returned res) = Inr None"

fun result_of :: "outcome \<Rightarrow> error + (string \<times> ndarray) list" where
  "result_of Cancelled = Inl CancelledError"
| "result_of (Raised e) = Inl e"
| "result_of (Returned res) = Inr res"

text \<open>
  The loop of lines 242-246 over \<^verbatim>\<open>f.result().items()\<close>; \<open>res\<close> is \<^verbatim>\<open>f.result()\<close>, the
  whole dictionary, which is what line 244 stores.
\<close>

fun store_results ::
  "int \<Rightarrow> (string \<times> ndarray) list \<Rightarrow> (string \<times> ndarray) list \<Rightarrow> (string \<times> StoredData) list
     \<Rightarrow> error + (string \<times> StoredData) list" where
  "store_results ci [] res sd = Inr sd"
| "store_results ci ((dt, result) # items) res sd =
     (case map_of sd dt of
        None \<Rightarrow> Inl KeyError
      | Some d \<Rightarrow>
          (let d1 = d\<lparr>stored := AList.update ci (ResultDict res) (stored d)\<rparr>;
               d2 = (if last_contiguous d1 = ci - 1
                     then d1\<lparr>last_contiguous := last_contiguous d1 + 1\<rparr> else d1)
           in store_results ci items res (AList.update dt d2 sd)))"

fun receive_loop ::
  "Task list \<Rightarrow> Task list \<Rightarrow> Task list \<Rightarrow> TaskGenerator list \<Rightarrow> (string \<times> StoredData) list
     \<Rightarrow> error + (Task list \<times> TaskGenerator list \<times> (string \<times> StoredData) list)" where
  "receive_loop all_pending [] still_pending gens sd = Inr (still_pending, gens, sd)"
| "receive_loop all_pending (t # ts) still_pending gens sd =
     (case future t of
        None \<Rightarrow> Inl AttributeError
      | Some Running \<Rightarrow> receive_loop all_pending ts (still_pending @ [t]) gens sd
      | Some (Done f) \<Rightarrow>
          (let gens1 = (if is_final t
                        then gens[generator t := (gens ! generator t)\<lparr>is_finished := True\<rparr>]
                        else gens)
           in case exception_of f of
                Inl e \<Rightarrow> Inl e
              | Inr exc \<Rightarrow>
                  (case (case exc of
                           None \<Rightarrow> None
                         | Some e \<Rightarrow> snd (exit_with_exception gens1 all_pending e)) of
                     Some e \<Rightarrow> Inl e
                   | None \<Rightarrow>
                       if task_dtypes t = [] then receive_loop all_pending ts still_pending gens1 sd
                       else (case result_of f of
                               Inl e \<Rightarrow> Inl e
                             | Inr res \<Rightarrow>
                                 (case store_results (task_chunk_i t) res res sd of
                                    Inl e \<Rightarrow> Inl e
                                  | Inr sd' \<Rightarrow> receive_loop all_pending ts still_pending gens1 sd')))))"

fun receive_from_done_tasks :: "heap \<Rightarrow> Scheduler \<Rightarrow> error + (heap \<times> Scheduler)" where
  "receive_from_done_tasks h self =
     (case receive_loop (pending_tasks self) (pending_tasks self) [] (h (task_generators self))
             (stored_data self) of
        Inl e \<Rightarrow> Inl e
      | Inr (still_pending, gens, sd) \<Rightarrow>
          Inr (h(task_generators self := gens),
               self\<lparr>pending_tasks := still_pending, stored_data := sd\<rparr>))"

subsection \<open>Scheduler._get_new_task (lines 252-325)\<close>

text \<open>The local variables of one admission pass; generators are named by position.\<close>

record locals =
  external_waits :: "nat list"
  sources :: "nat list"
  requests_for :: "(string \<times> nat) list"

text \<open>
  Lines 263-266: \<^verbatim>\<open>not tg.parallel and (self.stored_data[tg.dtypes[0]].last_contiguous
  < tg.need_result_chunk)\<close>, with the IndexError of an empty \<^verbatim>\<open>dtypes\<close> and the KeyError
  of a datatype that has no store.
\<close>

fun need_previous_task :: "(string \<times> StoredData) list \<Rightarrow> TaskGenerator \<Rightarrow> error + bool" where
  "need_previous_task sd tg =
     (if parallel tg then Inr False
      else (case dtypes tg of
              [] \<Rightarrow> Inl IndexError
            | dt # dts \<Rightarrow>
                (case map_of sd dt of
                   None \<Rightarrow> Inl KeyError
                 | Some d \<Rightarrow> Inr (last_contiguous d < need_result_chunk tg))))"

text \<open>
  \<^verbatim>\<open>chunk_id in self.stored_data[dtype]\<close>: the right-hand side is a \<^verbatim>\<open>StoredData\<close> object,
  whose class defines neither \<^verbatim>\<open>__contains__\<close> nor \<^verbatim>\<open>__iter__\<close> nor \<^verbatim>\<open>__getitem__\<close>, so
  the membership test raises TypeError.
\<close>

fun StoredData_contains :: "StoredData \<Rightarrow> int \<Rightarrow> error + bool" where
  "StoredData_contains d chunk_id = Inl TypeError"

text \<open>\<^verbatim>\<open>requests_for[dtype] += 1\<close> on a \<^verbatim>\<open>defaultdict(int)\<close>.\<close>

fun requests_incr :: "string \<Rightarrow> (string \<times> nat) list \<Rightarrow> (string \<times> nat) list" where
  "requests_incr dt rq = AList.update dt ((case map_of rq dt of None \<Rightarrow> 0 | Some n \<Rightarrow> n) + 1) rq"

text \<open>
  The loop of lines 282-285. Its \<^verbatim>\<open>continue\<close> goes on with the next wanted input of the
  same generator.
\<close>

fun check_wants ::
  "(string \<times> StoredData) list \<Rightarrow> (string \<times> int) list \<Rightarrow> (string \<times> nat) list
     \<Rightarrow> error + (string \<times> nat) list" where
  "check_wants sd [] rq = Inr rq"
| "check_wants sd ((dt, chunk_id) # ws) rq =
     (case map_of sd dt of
        None \<Rightarrow> Inl KeyError
      | Some d \<Rightarrow>
          (case StoredData_contains d chunk_id of
             Inl e \<Rightarrow> Inl e
           | Inr present \<Rightarrow>
               if \<not> present then check_wants sd ws (requests_incr dt rq)
               else check_wants sd ws rq))"

text \<open>\<^verbatim>\<open>s[i]\<close> on a string: a negative index counts from the end.\<close>

fun str_getitem :: "string \<Rightarrow> int \<Rightarrow> error + string" where
  "str_getitem s i =
     (let n = int (length s); j = (if i < 0 then n + i else i)
      in if 0 \<le> j \<and> j < n then Inr [s ! nat j] else Inl IndexError)"

text \<open>
  The loop of lines 289-291: \<^verbatim>\<open>self.stored_data[dtype].seen_by_consumers[tg] = chunk_i\<close>,
  then \<^verbatim>\<open>task_inputs[dtype] = self.stored_data[dtype[chunk_i]]\<close>, which indexes the name
  of the datatype and looks the one-character string up among the stores.
\<close>

fun build_inputs ::
  "nat \<Rightarrow> (string \<times> int) list \<Rightarrow> (string \<times> StoredData) list \<Rightarrow> (string \<times> StoredData) list
     \<Rightarrow> error + ((string \<times> StoredData) list \<times> (string \<times> StoredData) list)" where
  "build_inputs tg [] sd task_inputs = Inr (sd, task_inputs)"
| "build_inputs tg ((dt, ci) # ws) sd task_inputs =
     (case map_of sd dt of
        None \<Rightarrow> Inl KeyError
      | Some d \<Rightarrow>
          (let sd1 = AList.update dt (d\<lparr>seen_by_consumers := AList.update tg ci (seen_by_consumers d)\<rparr>) sd
           in case str_getitem dt ci of
                Inl e \<Rightarrow> Inl e
              | Inr c \<Rightarrow>
                  (case map_of sd1 c of
                     None \<Rightarrow> Inl KeyError
                   | Some v \<Rightarrow> build_inputs tg ws sd1 (AList.update dt v task_inputs))))"

text \<open>
  The loop of lines 259-294 over the generators at the positions still to visit. The
  result \<open>Some t\<close> is the \<^verbatim>\<open>return\<close> of a task from inside the loop, \<open>None\<close> is the loop
  running to its end.
\<close>

fun admit_loop ::
  "nat \<Rightarrow> string list \<Rightarrow> nat list \<Rightarrow> TaskGenerator list \<Rightarrow> (string \<times> StoredData) list \<Rightarrow> locals
     \<Rightarrow> error + (TaskGenerator list \<times> (string \<times> StoredData) list \<times> locals \<times> Task option)" where
  "admit_loop now exhausted_inputs [] gens sd loc = Inr (gens, sd, loc, None)"
| "admit_loop now exhausted_inputs (i # rest) gens sd loc =
     (let tg = gens ! i in
      if \<not> external_input_ready tg now
      then admit_loop now exhausted_inputs rest gens sd
             (loc\<lparr>external_waits := external_waits loc @ [i]\<rparr>)
      else
        (case need_previous_task sd tg of
           Inl e \<Rightarrow> Inl e
         | Inr blocked \<Rightarrow>
             if blocked then admit_loop now exhausted_inputs rest gens sd loc
             else if is_source tg
             then admit_loop now exhausted_inputs rest gens sd (loc\<lparr>sources := sources loc @ [i]\<rparr>)
             else if (\<not> is_source tg \<or> external_inputs_exhausted tg)
                     \<and> list_all (\<lambda>dt. dt \<in> set exhausted_inputs) (dtypes tg)
             then
               (if \<not> has_finished tg
                then
                  (if has_final_task tg
                   then (case final_task tg i of
                           Inl e \<Rightarrow> Inl e
                         | Inr t \<Rightarrow> Inr (gens, sd, loc, Some t))
                   else admit_loop now exhausted_inputs rest
                          (gens[i := tg\<lparr>has_finished := True\<rparr>]) sd loc)
                else admit_loop now exhausted_inputs rest gens sd loc)
             else
               (case check_wants sd (wants_input tg) (requests_for loc) of
                  Inl e \<Rightarrow> Inl e
                | Inr rq \<Rightarrow>
                    (case build_inputs i (wants_input tg) sd [] of
                       Inl e \<Rightarrow> Inl e
                     | Inr (sd1, task_inputs) \<Rightarrow>
                         (case cleanup_cache sd1 of
                            Inl e \<Rightarrow> Inl e
                          | Inr sd2 \<Rightarrow>
                              (case task tg i (Some task_inputs) of
                                 Inl e \<Rightarrow> Inl e
                               | Inr (tg', t) \<Rightarrow>
                                   Inr (gens[i := tg'], sd2, loc\<lparr>requests_for := rq\<rparr>, Some t)))))))"

text \<open>
  Lines 307-310: every source scored by the requests for its datatypes plus the next
  value of \<^verbatim>\<open>random()\<close>; \<^verbatim>\<open>max\<close> returns the first entry with the greatest score.
\<close>

fun requests_sum :: "(string \<times> nat) list \<Rightarrow> string list \<Rightarrow> nat" where
  "requests_sum rq [] = 0"
| "requests_sum rq (dt # dts) = (case map_of rq dt of None \<Rightarrow> 0 | Some n \<Rightarrow> n) + requests_sum rq dts"

fun requests_for_source ::
  "(nat \<Rightarrow> rat) \<Rightarrow> nat \<Rightarrow> (string \<times> nat) list \<Rightarrow> TaskGenerator list \<Rightarrow> nat list \<Rightarrow> (nat \<times> rat) list" where
  "requests_for_source rand k rq gens [] = []"
| "requests_for_source rand k rq gens (s # ss) =
     (s, of_nat (requests_sum rq (dtypes (gens ! s))) + rand k)
       # requests_for_source rand (Suc k) rq gens ss"

fun max_by_score :: "nat \<times> rat \<Rightarrow> (nat \<times> rat) list \<Rightarrow> nat \<times> rat" where
  "max_by_score best [] = best"
| "max_by_score best (q # qs) = max_by_score (if snd q > snd best then q else best) qs"

text \<open>
  The whole method. \<open>limit\<close> is the number of nested calls the interpreter still allows
  (line 322 calls the method from itself), \<open>now\<close> the number of sleeps so far, \<open>rss\<close> the
  resident set size that \<^verbatim>\<open>memory_info()\<close> reports, \<open>rand k\<close> the value of the \<open>k\<close>-th call
  of \<^verbatim>\<open>random()\<close>.
\<close>

fun get_new_task ::
  "nat \<Rightarrow> nat \<Rightarrow> nat \<Rightarrow> (nat \<Rightarrow> rat) \<Rightarrow> heap \<Rightarrow> Scheduler \<Rightarrow> error + (heap \<times> Scheduler \<times> Task option)" where
  "get_new_task 0 now rss rand h self = Inl RecursionError"
| "get_new_task (Suc limit) now rss rand h self =
     (let gens = h (task_generators self);
          exhausted_inputs = concat (map dtypes gens)
      in case admit_loop now exhausted_inputs [0..<length gens] gens (stored_data self)
                \<lparr>external_waits = [], sources = [], requests_for = []\<rparr> of
           Inl e \<Rightarrow> Inl e
         | Inr (gens', sd', loc, Some t) \<Rightarrow>
             Inr (h(task_generators self := gens'), self\<lparr>stored_data := sd'\<rparr>, Some t)
         | Inr (gens', sd', loc, None) \<Rightarrow>
             (let h' = h(task_generators self := gens'); self' = self\<lparr>stored_data := sd'\<rparr> in
              if sources loc \<noteq> [] then
                (if of_nat rss / 1000000 > threshold_mb self' \<and> pending_tasks self' \<noteq> []
                 then Inr (h', self', None)
                 else
                   (let scored = requests_for_source rand 0 (requests_for loc) gens' (sources loc);
                        s = fst (max_by_score (hd scored) (tl scored))
                    in case task (gens' ! s) s None of
                         Inl e \<Rightarrow> Inl e
                       | Inr (tg', t) \<Rightarrow>
                           Inr (h(task_generators self := gens'[s := tg']), self', Some t)))
              else if external_waits loc \<noteq> [] then
                (if length (pending_tasks self') \<noteq> 0 then Inr (h', self', None)
                 else get_new_task limit (Suc now) rss rand h' self')
              else Inr (h', self', None)))"

subsection \<open>Scheduler.main_loop (lines 186-209)\<close>

text \<open>
  Modelled from the spec: \<^verbatim>\<open>_submit_task\<close>, which the class leaves to its subclasses
  (line 250 raises NotImplementedError). The spec: "submit it to the selected pool, store
  the handle on the task, and append to the pending set".
\<close>

fun submit_task :: "Scheduler \<Rightarrow> Task \<Rightarrow> Scheduler" where
  "submit_task self t = self\<lparr>pending_tasks := pending_tasks self @ [t\<lparr>future := Some Running\<rparr>]\<rparr>"

text \<open>
  What the pools do while the scheduler works or waits (line 207): a future that is
  running may become done, with some outcome; a future that is done stays as it is.
\<close>

fun complete :: "outcome option \<Rightarrow> Task \<Rightarrow> Task" where
  "complete None t = t"
| "complete (Some out) t =
     (case future t of
        Some Running \<Rightarrow> t\<lparr>future := Some (Done out)\<rparr>
      | _ \<Rightarrow> t)"

fun pools_progress :: "outcome option list \<Rightarrow> Task list \<Rightarrow> Task list" where
  "pools_progress outs [] = []"
| "pools_progress [] (t # ts) = t # ts"
| "pools_progress (out # outs) (t # ts) = complete out t # pools_progress outs ts"

text \<open>
  The states of a run of \<^verbatim>\<open>main_loop\<close> on a constructed scheduler, one rule for each
  statement of the loop that changes the state: the constructor, the drain of line 188,
  the admission of line 189 (its state before the task is yielded or submitted), the
  submission of line 204, and the progress of the pools. A statement that raises ends the
  run. The rules may follow each other in any order, so every state of a run of the loop
  is among them.
\<close>

inductive run :: "heap \<Rightarrow> Scheduler \<Rightarrow> bool" where
  constructed:
    "Scheduler_init h0 a mw = (h, s) \<Longrightarrow> run h s"
| drained:
    "run h s \<Longrightarrow> receive_from_done_tasks h s = Inr (h', s') \<Longrightarrow> run h' s'"
| admitted:
    "run h s \<Longrightarrow> get_new_task limit now rss rand h s = Inr (h', s', r) \<Longrightarrow> run h' s'"
| submitted:
    "run h s \<Longrightarrow> get_new_task limit now rss rand h s = Inr (h', s', Some t) \<Longrightarrow>
     task_submit_to t \<noteq> ''user'' \<Longrightarrow> run h' (submit_task s' t)"
| progressed:
    "run h s \<Longrightarrow> run h (s\<lparr>pending_tasks := pools_progress outs (pending_tasks s)\<rparr>)"


section \<open>Concrete pipelines\<close>

text \<open>
  The class attributes of \<^verbatim>\<open>TaskGenerator\<close> (lines 52-72) and the methods it defines;
  \<open>dtypes\<close> and \<open>wants_input\<close>, which the class only annotates, are empty here and set by
  every generator below.
\<close>

definition TaskGenerator_defaults :: TaskGenerator where
  "TaskGenerator_defaults =
     \<lparr>dtypes = [], wants_input = [], is_source = False, submit_to = ''thread'',
      parallel = False, input_delivery = ''direct'', priority = 0, depth = 0,
      chunk_i = 0, need_result_chunk = - 1, has_final_task = False, has_finished = False,
      is_finished = False, finished = None, deliver_inputs = Undefined, finish = None,
      external_input_ready = (\<lambda>n. True), external_inputs_exhausted = False\<rparr>"

text \<open>A parallel source of datatype a, and a parallel transform from chunk 0 of a to b.\<close>

definition source_S :: TaskGenerator where
  "source_S = TaskGenerator_defaults\<lparr>dtypes := [''a''], is_source := True, parallel := True,
                                     priority := 1\<rparr>"

definition transform_T :: TaskGenerator where
  "transform_T = TaskGenerator_defaults\<lparr>dtypes := [''b''], wants_input := [(''a'', 0)],
                                        parallel := True, priority := 2, depth := 1\<rparr>"

text \<open>The caller's list, transform first, at address 0; and the same list sorted.\<close>

definition heap_TS :: heap where
  "heap_TS = (\<lambda>r. [])(0 := [transform_T, source_S])"

definition heap_ST :: heap where
  "heap_ST = (\<lambda>r. [])(0 := [source_S, transform_T])"

text \<open>A store with three chunks of a, read up to chunk 1 by one consumer and up to 0 by another.\<close>

definition gc_example :: "(string \<times> StoredData) list" where
  "gc_example =
     [(''a'', \<lparr>dtype = ''a'',
              stored = [(0, ResultDict [(''a'', [10])]), (1, ResultDict [(''a'', [20])]),
                        (2, ResultDict [(''a'', [30])])],
              seen_by_consumers = [(1, 1), (2, 0)],
              last_contiguous = 2, source_exhausted = False\<rparr>)]"

text \<open>
  The scheduler as the constructor leaves it for the list [S, T], with chunk 0 of a in the
  store of a (as line 244 stores it) when \<open>present\<close> holds, and that store empty otherwise.
\<close>

definition sched_ST :: "bool \<Rightarrow> Scheduler" where
  "sched_ST present =
     \<lparr>max_workers = 5, task_generators = 0, pending_tasks = [],
      stored_data =
        [(''a'', \<lparr>dtype = ''a'',
                 stored = (if present then [(0, ResultDict [(''a'', [10])])] else []),
                 seen_by_consumers = [(0, - 1)],
                 last_contiguous = (if present then 0 else - 1), source_exhausted = False\<rparr>),
         (''b'', \<lparr>dtype = ''b'', stored = [], seen_by_consumers = [(1, - 1)],
                 last_contiguous = - 1, source_exhausted = False\<rparr>)],
      threshold_mb = 1000\<rparr>"

text \<open>
  A parallel source of the two datatypes a and b at position 0, and two of its tasks, for
  chunks 1 and 0, both done; the task for chunk 1 is first in the pending list. The
  stores are the ones the constructor makes.
\<close>

definition source_AB :: TaskGenerator where
  "source_AB = TaskGenerator_defaults\<lparr>dtypes := [''a'', ''b''], is_source := True, parallel := True,
                                      priority := 1\<rparr>"

definition done_task :: "int \<Rightarrow> (string \<times> ndarray) list \<Rightarrow> Task" where
  "done_task ci res = (Task_init (Partial ci []) source_AB 0 ci False)\<lparr>future := Some (Done (Returned res))\<rparr>"

definition sched_AB :: Scheduler where
  "sched_AB =
     (snd (Scheduler_init ((\<lambda>r. [])(0 := [source_AB])) 0 5))
       \<lparr>pending_tasks := [done_task 1 [(''a'', [20]), (''b'', [21])],
                          done_task 0 [(''a'', [10]), (''b'', [11])]]\<rparr>"






section \<open>Garbage collection\<close>

lemma cleanup_cache_Inl:
  "cleanup_cache sd = Inl e \<Longrightarrow> e = RuntimeError \<and> (\<exists>kd \<in> set sd. seen_by_consumers (snd kd) = [])"
  by (induction sd rule: cleanup_cache.induct) (auto split: if_splits sum.splits)

lemma cleanup_cache_Inr:
  "cleanup_cache sd = Inr sd' \<Longrightarrow>
     sd' = map (\<lambda>(k, d). (k, cleanup_data d)) sd \<and> (\<forall>kd \<in> set sd. seen_by_consumers (snd kd) \<noteq> [])"
  by (induction sd arbitrary: sd' rule: cleanup_cache.induct) (auto split: if_splits sum.splits)

lemma cleanup_data_stored:
  "e \<in> set (stored (cleanup_data d)) \<Longrightarrow> fst e > Min (set (map snd (seen_by_consumers d)))"
  by (auto simp: Let_def)

lemma cleanup_data_seen: "seen_by_consumers (cleanup_data d) = seen_by_consumers d"
  by (simp add: Let_def)

text \<open>
  Claim C7. A pass of \<^verbatim>\<open>_cleanup_cache\<close> raises RuntimeError exactly when some stored
  datatype has no registered consumer. A pass that returns keeps the datatypes, and
  leaves in every store only entries whose chunk number is greater than the minimum of
  that datatype's \<open>seen_by_consumers\<close> values: no entry at or below the minimum remains.
\<close>

theorem C7_cleanup_cache:
  "(cleanup_cache sd = Inl RuntimeError \<longleftrightarrow> (\<exists>kd \<in> set sd. seen_by_consumers (snd kd) = [])) \<and>
   (\<forall>sd'. cleanup_cache sd = Inr sd' \<longrightarrow>
      map fst sd' = map fst sd \<and>
      (\<forall>kd \<in> set sd'. seen_by_consumers (snd kd) \<noteq> [] \<and>
         (\<forall>e \<in> set (stored (snd kd)). Min (set (map snd (seen_by_consumers (snd kd)))) < fst e)))"
proof (intro conjI allI impI)
  show "cleanup_cache sd = Inl RuntimeError \<longleftrightarrow> (\<exists>kd \<in> set sd. seen_by_consumers (snd kd) = [])"
  proof
    assume "cleanup_cache sd = Inl RuntimeError"
    then show "\<exists>kd \<in> set sd. seen_by_consumers (snd kd) = []"
      using cleanup_cache_Inl by blast
  next
    assume dead: "\<exists>kd \<in> set sd. seen_by_consumers (snd kd) = []"
    show "cleanup_cache sd = Inl RuntimeError"
    proof (cases "cleanup_cache sd")
      case (Inl e)
      then show ?thesis using cleanup_cache_Inl by blast
    next
      case (Inr sd')
      then show ?thesis using cleanup_cache_Inr dead by blast
    qed
  qed
next
  fix sd' assume ok: "cleanup_cache sd = Inr sd'"
  then have eq: "sd' = map (\<lambda>(k, d). (k, cleanup_data d)) sd"
    and live: "\<forall>kd \<in> set sd. seen_by_consumers (snd kd) \<noteq> []"
    using cleanup_cache_Inr by blast+
  show "map fst sd' = map fst sd"
    by (simp add: eq case_prod_unfold comp_def)
  show "\<forall>kd \<in> set sd'. seen_by_consumers (snd kd) \<noteq> [] \<and>
         (\<forall>e \<in> set (stored (snd kd)). Min (set (map snd (seen_by_consumers (snd kd)))) < fst e)"
  proof
    fix kd assume "kd \<in> set sd'"
    then obtain k d where kd: "kd = (k, cleanup_data d)" and mem: "(k, d) \<in> set sd"
      by (auto simp: eq)
    have "seen_by_consumers d \<noteq> []" using live mem by auto
    then show "seen_by_consumers (snd kd) \<noteq> [] \<and>
         (\<forall>e \<in> set (stored (snd kd)). Min (set (map snd (seen_by_consumers (snd kd)))) < fst e)"
      using cleanup_data_stored[of _ d] by (simp add: kd cleanup_data_seen del: cleanup_data.simps)
  qed
qed

text \<open>
  On \<open>gc_example\<close> the minimum is 0: the pass returns, chunk 0 is dropped, chunks 1 and 2
  stay. With the consumers of the datatype removed the pass raises.
\<close>

theorem C7_cleanup_cache_witness:
  "map (\<lambda>kd. (fst kd, map fst (stored (snd kd)))) (projr (cleanup_cache gc_example)) = [(''a'', [1, 2])] \<and>
   isl (cleanup_cache gc_example) = False \<and>
   cleanup_cache (map (\<lambda>kd. (fst kd, (snd kd)\<lparr>seen_by_consumers := []\<rparr>)) gc_example) = Inl RuntimeError"
  using C7_cleanup_cache[of gc_example]
        C7_cleanup_cache[of "map (\<lambda>kd. (fst kd, (snd kd)\<lparr>seen_by_consumers := []\<rparr>)) gc_example"]
  by (simp add: gc_example_def Let_def)

section \<open>Construction\<close>

text \<open>
  Claim C9. \<^verbatim>\<open>TaskGenerator.__init__\<close> raises exactly when the generator is not parallel
  and its input delivery is not direct. So a parallel generator with staged delivery is
  constructed, and a non-parallel generator with staged delivery is rejected: the
  opposite of the claim, and of the message the constructor raises with.
\<close>

theorem C9_init_rejects_non_parallel_staged:
  "TaskGenerator_init (g\<lparr>parallel := True, input_delivery := ''separate''\<rparr>)
     = Inr (g\<lparr>parallel := True, input_delivery := ''separate''\<rparr>) \<and>
   TaskGenerator_init (g\<lparr>parallel := False, input_delivery := ''separate''\<rparr>) = Inl RuntimeError \<and>
   ((\<exists>e. TaskGenerator_init g = Inl e) \<longleftrightarrow> (input_delivery g \<noteq> ''direct'' \<and> \<not> parallel g))"
  by auto

text \<open>
  Claim C10. The constructor keeps the reference it was given and sorts the list object
  behind it: after the call the caller's list, at the same address, is the stable sort of
  what it held by (priority, depth), ascending, a permutation of the old contents; no
  other list object changes.
\<close>

theorem C10_sorts_the_callers_list_in_place:
  "Scheduler_init h a mw = (h', s) \<Longrightarrow>
     task_generators s = a \<and>
     h' a = sort_key sort_key_of (h a) \<and>
     sorted (map sort_key_of (h' a)) \<and>
     mset (h' a) = mset (h a) \<and>
     (\<forall>b. b \<noteq> a \<longrightarrow> h' b = h b)"
  by (auto simp: Let_def)

theorem C10_sorts_the_callers_list_in_place_witness:
  "heap_TS 0 = [transform_T, source_S] \<and>
   fst (Scheduler_init heap_TS 0 5) 0 = [source_S, transform_T] \<and>
   task_generators (snd (Scheduler_init heap_TS 0 5)) = 0 \<and>
   fst (Scheduler_init heap_TS 0 5) 1 = heap_TS 1"
  using C10_sorts_the_callers_list_in_place[of heap_TS 0 5 "fst (Scheduler_init heap_TS 0 5)"
          "snd (Scheduler_init heap_TS 0 5)"]
  by (simp add: heap_TS_def source_S_def transform_T_def TaskGenerator_defaults_def
                sort_key_def Let_def)

text \<open>
  Claim C1. The constructor makes a store for every produced datatype, but the consumers
  it registers for a datatype are the generators that produce it (the loop of line 180
  walks \<^verbatim>\<open>tg.dtypes\<close>), not the ones that want it. With the source S of a and the
  transform T from a to b, sorted to positions 0 and 1, the store of a has the single
  consumer S and the store of b the single consumer T; T, the only generator that wants
  a, is not registered for it.
\<close>

theorem C1_constructor_registers_producers:
  "fst (Scheduler_init heap_TS 0 5) 0 = [source_S, transform_T] \<and>
   map (\<lambda>kd. (fst kd, seen_by_consumers (snd kd)))
       (stored_data (snd (Scheduler_init heap_TS 0 5))) = [(''a'', [(0, - 1)]), (''b'', [(1, - 1)])]"
  by (simp add: heap_TS_def source_S_def transform_T_def TaskGenerator_defaults_def
                sort_key_def Let_def)

section \<open>Chunk numbers\<close>

lemma task_result:
  "task g p inp = Inr (g', t) \<Longrightarrow>
     generator t = p \<and> task_chunk_i t = chunk_i g + 1 \<and> chunk_i g' = chunk_i g + 1"
  by (auto simp: Let_def split: if_splits sum.splits option.splits hook.splits)

text \<open>
  Claim C5. \<^verbatim>\<open>task\<close> increments \<open>chunk_i\<close> before it builds the task, and \<open>chunk_i\<close> starts
  at 0, so the first task of a fresh generator carries chunk number 1, not 0.
\<close>

theorem C5_first_task_has_chunk_one:
  "chunk_i source_S = 0 \<and>
   map_sum id (\<lambda>gt. (chunk_i (fst gt), task_chunk_i (snd gt))) (task source_S 0 None) = Inr (1, 1)"
  by (simp add: source_S_def TaskGenerator_defaults_def)

section \<open>Admission\<close>


text \<open>The source that line 310 picks is one of the sources the loop collected.\<close>

lemma requests_for_source_fst: "map fst (requests_for_source rand k rq gens ss) = ss"
  by (induction ss arbitrary: k) auto

lemma max_by_score_mem: "max_by_score best qs \<in> set (best # qs)"
  by (induction qs arbitrary: best) auto

lemma chosen_source_mem:
  assumes "ss \<noteq> []"
  shows "fst (max_by_score (hd (requests_for_source rand k rq gens ss))
                (tl (requests_for_source rand k rq gens ss))) \<in> set ss"
proof -
  let ?sc = "requests_for_source rand k rq gens ss"
  have ne: "?sc \<noteq> []" using assms requests_for_source_fst[of rand k rq gens ss] by auto
  have "max_by_score (hd ?sc) (tl ?sc) \<in> set (hd ?sc # tl ?sc)" by (rule max_by_score_mem)
  with ne have "max_by_score (hd ?sc) (tl ?sc) \<in> set ?sc" by simp
  then have "fst (max_by_score (hd ?sc) (tl ?sc)) \<in> set (map fst ?sc)" by (simp del: requests_for_source.simps)
  then show ?thesis by (simp only: requests_for_source_fst)
qed



text \<open>
  Claim C3. The scheduler holds the source S and the transform T, which wants chunk 0 of
  a, and chunk 0 of a is in the store. Admission does not build a task for T: line 256
  counts every produced datatype as exhausted, so line 274 holds for T, line 280 marks
  T finished, and the task returned is the next task of the source S (position 0, chunk
  1). The stores, with the consumers' marks, are as before: nothing was marked seen.
\<close>

theorem C3_admission_skips_ready_transform:
  "map_sum id
     (\<lambda>r. (map has_finished (fst r 0),
           map_option (\<lambda>t. (generator t, task_chunk_i t, task_dtypes t)) (snd (snd r)),
           stored_data (fst (snd r)) = stored_data (sched_ST True)))
     (get_new_task (Suc 0) 0 0 (\<lambda>k. 0) heap_ST (sched_ST True))
   = Inr ([False, True], Some (0, 1, [''a'']), True)"
  by (simp add: heap_ST_def sched_ST_def source_S_def transform_T_def TaskGenerator_defaults_def
                Let_def upt_rec)

text \<open>
  Claim C4. The same scheduler with the store of a empty, so that the input T wants is
  missing. The loop over the generators ends with no request recorded
  (\<open>requests_for\<close> is empty) and with T marked finished, and the pass returns the next
  task of the source.
\<close>

theorem C4_missing_input_records_no_request:
  "map_sum id
     (\<lambda>r. (map has_finished (fst r), requests_for (fst (snd (snd r))), sources (fst (snd (snd r))),
           map_option generator (snd (snd (snd r)))))
     (admit_loop 0 [''a'', ''b''] [0, 1] [source_S, transform_T] (stored_data (sched_ST False))
        \<lparr>external_waits = [], sources = [], requests_for = []\<rparr>)
   = Inr ([False, True], [], [0], None) \<and>
   map_sum id (\<lambda>r. (map has_finished (fst r 0), map_option generator (snd (snd r))))
     (get_new_task (Suc 0) 0 0 (\<lambda>k. 0) heap_ST (sched_ST False))
   = Inr ([False, True], Some 0)"
  by (simp add: heap_ST_def sched_ST_def source_S_def transform_T_def TaskGenerator_defaults_def
                Let_def upt_rec)

section \<open>Results of done tasks\<close>

text \<open>
  Claim C2. After the drain, the store of a holds under chunk 1 the whole result
  dictionary of the task (both datatypes), not the array [20] of datatype a; and with
  chunks 0 and 1 both present \<open>last_contiguous\<close> is 0, not 1: line 246 adds one when the
  chunk is the next one and never looks at the chunks already there.
\<close>

theorem C2_drain_stores_whole_result_and_steps_frontier_by_one:
  "map_sum id
     (\<lambda>r. (map (\<lambda>kd. (fst kd, map fst (stored (snd kd)), last_contiguous (snd kd))) (stored_data (snd r)),
           map_of (stored (snd (hd (stored_data (snd r))))) 1,
           pending_tasks (snd r)))
     (receive_from_done_tasks ((\<lambda>r. [])(0 := [source_AB])) sched_AB)
   = Inr ([(''a'', [1, 0], 0), (''b'', [1, 0], 0)],
          Some (ResultDict [(''a'', [20]), (''b'', [21])]),
          [])"
  by (simp add: sched_AB_def done_task_def source_AB_def TaskGenerator_defaults_def
                sort_key_def Let_def)

section \<open>Shutdown\<close>

text \<open>
  Claim C6. Two unfinished generators whose subclass defines \<^verbatim>\<open>finished\<close>, and one
  pending task. The shutdown prints, calls \<^verbatim>\<open>finish_on_exception\<close> on the first generator
  only, and raises the original error from inside the loop: the second generator is
  never told, no future is cancelled, no pool is shut down. With the class as it is
  (\<^verbatim>\<open>finished\<close> undefined) the shutdown raises AttributeError instead of the original
  error. With no generator at all it cancels and shuts down, then returns without
  raising.
\<close>

theorem C6_shutdown_raises_inside_the_loop:
  "exit_with_exception [source_S\<lparr>finished := Some False\<rparr>, transform_T\<lparr>finished := Some False\<rparr>]
       [done_task 1 []] (TaskFailure ''boom'')
     = ([Print, FinishOnException 0], Some (TaskFailure ''boom'')) \<and>
   exit_with_exception [source_S, transform_T] [done_task 1 []] (TaskFailure ''boom'')
     = ([Print], Some AttributeError) \<and>
   exit_with_exception [] [done_task 1 []] (TaskFailure ''boom'')
     = ([Print, CancelFuture 0, ThreadpoolShutdown, ProcesspoolShutdown], None)"
  by (simp add: done_task_def source_S_def transform_T_def source_AB_def TaskGenerator_defaults_def)

section \<open>Non-parallel generators\<close>


lemma admit_loop_blocked:
  "admit_loop now exh ps gens sd loc = Inr (gens', sd', loc', r) \<Longrightarrow>
   need_previous_task sd (gens ! i) = Inr True \<Longrightarrow>
     gens' ! i = gens ! i \<and> length gens' = length gens \<and>
     (\<forall>t. r = Some t \<longrightarrow> generator t \<noteq> i) \<and>
     (r = None \<longrightarrow> sd' = sd) \<and>
     (i \<notin> set (sources loc) \<longrightarrow> i \<notin> set (sources loc'))"
proof (induction ps arbitrary: gens loc)
  case Nil
  then show ?case by simp
next
  case (Cons p rest)
  note run = Cons.prems(1) and blk = Cons.prems(2)
  note IH1 = Cons.IH[of gens "loc\<lparr>external_waits := external_waits loc @ [p]\<rparr>"]
  note IH2 = Cons.IH[of gens loc]
  note IH3 = Cons.IH[of gens "loc\<lparr>sources := sources loc @ [p]\<rparr>"]
  note IH4 = Cons.IH[of "gens[p := (gens ! p)\<lparr>has_finished := True\<rparr>]" loc]
  show ?case
  proof (cases "p = i")
    case True
    with run blk IH1 IH2 show ?thesis
      by (auto simp: Let_def simp del: need_previous_task.simps task.simps split: if_splits)
  next
    case False
    then have upd: "\<And>x. gens[p := x] ! i = gens ! i" by simp
    show ?thesis
    proof (cases "external_input_ready (gens ! p) now")
      case False
      with run blk IH1 show ?thesis by (simp add: Let_def)
    next
      case True
      note ready = this
      show ?thesis
      proof (cases "need_previous_task sd (gens ! p)")
        case (Inl e)
        with run ready show ?thesis
          by (simp add: Let_def del: need_previous_task.simps)
      next
        case (Inr b)
        from run ready Inr blk IH2 IH3 IH4 upd \<open>p \<noteq> i\<close> show ?thesis
          by (auto simp: Let_def simp del: need_previous_task.simps task.simps
                   split: if_splits sum.splits prod.splits dest: task_result)
      qed
    qed
  qed
qed


lemma get_new_task_blocked:
  "get_new_task limit now rss rand h s = Inr (h', s', r) \<Longrightarrow>
   need_previous_task (stored_data s) (h (task_generators s) ! i) = Inr True \<Longrightarrow>
     h' (task_generators s) ! i = h (task_generators s) ! i \<and>
     task_generators s' = task_generators s \<and>
     (\<forall>t. r = Some t \<longrightarrow> generator t \<noteq> i)"
proof (induction limit arbitrary: now h s)
  case 0
  then show ?case by simp
next
  case (Suc limit)
  let ?a = "task_generators s"
  let ?gens = "h ?a"
  let ?loc0 = "\<lparr>external_waits = [], sources = [], requests_for = []\<rparr>"
  note run = Suc.prems(1) and blk = Suc.prems(2)
  obtain gens' sd' loc r0 where
    al: "admit_loop now (concat (map dtypes ?gens)) [0..<length ?gens] ?gens (stored_data s) ?loc0
           = Inr (gens', sd', loc, r0)"
    using run by (cases "admit_loop now (concat (map dtypes ?gens)) [0..<length ?gens] ?gens (stored_data s) ?loc0")
      (auto simp: Let_def simp del: admit_loop.simps)
  from admit_loop_blocked[OF al blk]
  have same: "gens' ! i = ?gens ! i"
    and notask: "\<forall>t. r0 = Some t \<longrightarrow> generator t \<noteq> i"
    and sdsame: "r0 = None \<longrightarrow> sd' = stored_data s"
    and nosrc: "i \<notin> set (sources loc)"
    by simp_all
  show ?case
  proof (cases r0)
    case (Some t)
    with run al same notask show ?thesis
      by (auto simp: Let_def simp del: admit_loop.simps)
  next
    case None
    with sdsame have sd': "sd' = stored_data s" by simp
    let ?h1 = "h(?a := gens')"
    let ?s1 = "s\<lparr>stored_data := sd'\<rparr>"
    show ?thesis
    proof (cases "sources loc = []")
      case False
      let ?sc = "requests_for_source rand 0 (requests_for loc) gens' (sources loc)"
      let ?s = "fst (max_by_score (hd ?sc) (tl ?sc))"
      have "?s \<in> set (sources loc)" using False by (rule chosen_source_mem)
      with nosrc have neq: "?s \<noteq> i" by auto
      from run al None False same neq show ?thesis
        by (auto simp: Let_def simp del: admit_loop.simps task.simps requests_for_source.simps
                 split: if_splits sum.splits dest: task_result)
    next
      case True
      note nosources = this
      show ?thesis
      proof (cases "external_waits loc \<noteq> [] \<and> pending_tasks s = []")
        case False
        with run al None nosources same show ?thesis
          by (auto simp: Let_def simp del: admit_loop.simps task.simps split: if_splits)
      next
        case True
        with run al None nosources
        have rec: "get_new_task limit (Suc now) rss rand ?h1 ?s1 = Inr (h', s', r)"
          by (simp add: Let_def del: admit_loop.simps)
        have blk1: "need_previous_task (stored_data ?s1) (?h1 (task_generators ?s1) ! i) = Inr True"
          using blk same sd' by (simp del: need_previous_task.simps)
        from Suc.IH[OF rec blk1] same show ?thesis by simp
      qed
    qed
  qed
qed









end
